theory Spec2Isabelle
  imports Complex_Main "HOL-Library.Sublist"
begin

section \<open>Python values used by the SocraTask AI Nexus\<close>

text \<open>
  Python floats are modelled as reals (no rounding), Python ints as \<open>int\<close>, strings as
  \<open>string\<close>. A dict literal whose values have mixed types (the profile dicts) is an
  association list of keys and \<open>pyval\<close>s, in insertion order.
\<close>

datatype pyval =
    PNone
  | PBool bool
  | PInt int
  | PStr string
  | PList "pyval list"
  | PDict "(string \<times> pyval) list"

text \<open>Exceptions the modelled paths can raise.\<close>

datatype error =
    AttributeError
  | RuntimeError string

text \<open>Truth value of an \<open>Optional[float]\<close>: \<open>None\<close> and \<open>0.0\<close> are falsy.\<close>

definition truthy :: "real option \<Rightarrow> bool" where
  "truthy x = (case x of None \<Rightarrow> False | Some v \<Rightarrow> v \<noteq> 0)"

text \<open>\<open>x and x >= k\<close> for an optional float \<open>x\<close>.\<close>

definition truthy_ge :: "real option \<Rightarrow> real \<Rightarrow> bool" where
  "truthy_ge x k = (case x of None \<Rightarrow> False | Some v \<Rightarrow> v \<noteq> 0 \<and> k \<le> v)"

text \<open>\<open>needle in hay\<close> on strings: \<open>needle\<close> occurs as a contiguous substring.\<close>

fun str_contains :: "string \<Rightarrow> string \<Rightarrow> bool" where
  "str_contains needle [] = (needle = [])"
| "str_contains needle (c # cs) = (prefix needle (c # cs) \<or> str_contains needle cs)"

text \<open>\<open>str.lower()\<close> on ASCII text: only \<open>A\<close>..\<open>Z\<close> change.\<close>

definition lower_char :: "char \<Rightarrow> char" where
  "lower_char c =
     (let n = (of_char c :: nat) in if 65 \<le> n \<and> n \<le> 90 then char_of (n + 32) else c)"

definition lower :: "string \<Rightarrow> string" where
  "lower s = map lower_char s"

text \<open>\<open>next((m for m in xs if P(m)), default)\<close>, the default being optional itself.\<close>

definition next_or :: "('a \<Rightarrow> bool) \<Rightarrow> 'a list \<Rightarrow> 'a option \<Rightarrow> 'a option" where
  "next_or P xs dflt = (case find P xs of Some m \<Rightarrow> Some m | None \<Rightarrow> dflt)"

section \<open>hardware\_profiler.py: the capability vector\<close>

record HardwareCapabilityVector =
  architecture :: string
  cpu_cores :: int
  cpu_threads :: int
  cpu_speed :: real
  ram_gb :: real
  gpu_name :: "string option"
  gpu_vram_gb :: "real option"
  storage_tier :: string
  thermal_profile :: string
  special_instructions :: "string list"

section \<open>model\_manager.py: catalog and recommendations\<close>

text \<open>
  \<open>ModelSpec\<close>. The field \<open>size\<close> of the source is \<open>size_str\<close> here (\<open>size\<close> is a
  constant of HOL).
\<close>

record ModelSpec =
  name :: string
  family :: string
  size_str :: string
  variant :: string
  quantization :: string
  disk_size_gb :: real
  ram_requirement_gb :: real
  recommended_hardware :: string
  description :: string
  download_url :: string
  checksum :: string

text \<open>
  An orchestration rule, the dict built by \<open>add_orchestration_rule\<close>; its key \<open>id\<close> is
  \<open>rule_id\<close> here.
\<close>

record OrchestrationRule =
  condition :: string
  action :: string
  priority :: int
  rule_id :: nat

record ModelManager =
  models_dir :: string
  downloaded_models :: "ModelSpec list"
  active_models :: "(string \<times> pyval) list"
  model_catalog :: "ModelSpec list"
  orchestration_rules :: "OrchestrationRule list"

definition initialize_model_catalog :: "ModelSpec list" where
  "initialize_model_catalog =
   [ \<lparr> name = ''qwen2.5-0.5b-q4_k_m.gguf'', family = ''Qwen2.5'', size_str = ''0.5B'',
       variant = ''Qwen2.5'', quantization = ''Q4_K_M'', disk_size_gb = 0.3,
       ram_requirement_gb = 0.5, recommended_hardware = ''8GB+ RAM'',
       description = ''General purpose model, efficient quantization'',
       download_url = ''https://huggingface.co/Qwen/Qwen2.5-0.5B-Instruct-GGUF/resolve/main/qwen2.5-0.5b-instruct-q4_k_m.gguf'',
       checksum = ''checksum_placeholder_0.5b_q4'' \<rparr>,
     \<lparr> name = ''qwen2.5-1.5b-q4_k_m.gguf'', family = ''Qwen2.5'', size_str = ''1.5B'',
       variant = ''Qwen2.5'', quantization = ''Q4_K_M'', disk_size_gb = 0.9,
       ram_requirement_gb = 1.2, recommended_hardware = ''8GB+ RAM'',
       description = ''General purpose model with good capabilities'',
       download_url = ''https://huggingface.co/Qwen/Qwen2.5-1.5B-Instruct-GGUF/resolve/main/qwen2.5-1.5b-instruct-q4_k_m.gguf'',
       checksum = ''checksum_placeholder_1.5b_q4'' \<rparr>,
     \<lparr> name = ''qwen2.5-7b-q6_k.gguf'', family = ''Qwen2.5'', size_str = ''7B'',
       variant = ''Qwen2.5'', quantization = ''Q6_K'', disk_size_gb = 5.2,
       ram_requirement_gb = 6.5,
       recommended_hardware = ''16GB+ RAM, 4GB+ VRAM recommended'',
       description = ''Balanced general purpose model'',
       download_url = ''https://huggingface.co/Qwen/Qwen2.5-7B-Instruct-GGUF/resolve/main/qwen2.5-7b-instruct-q6_k.gguf'',
       checksum = ''checksum_placeholder_7b_q6'' \<rparr>,
     \<lparr> name = ''qwen2.5-32b-q8_0.gguf'', family = ''Qwen2.5'', size_str = ''32B'',
       variant = ''Qwen2.5'', quantization = ''Q8_0'', disk_size_gb = 24.0,
       ram_requirement_gb = 32.0,
       recommended_hardware = ''32GB+ RAM, 8GB+ VRAM recommended'',
       description = ''High capability general purpose model'',
       download_url = ''https://huggingface.co/Qwen/Qwen2.5-32B-Instruct-GGUF/resolve/main/qwen2.5-32b-instruct-q8_0.gguf'',
       checksum = ''checksum_placeholder_32b_q8'' \<rparr>,
     \<lparr> name = ''qwen2.5-coder-1.5b-q4_k_m.gguf'', family = ''Qwen2.5-Coder'',
       size_str = ''1.5B'', variant = ''Qwen2.5-Coder'', quantization = ''Q4_K_M'',
       disk_size_gb = 0.9, ram_requirement_gb = 1.2, recommended_hardware = ''8GB+ RAM'',
       description = ''Specialized for code generation and debugging'',
       download_url = ''https://huggingface.co/Qwen/Qwen2.5-Coder-1.5B-Instruct-GGUF/resolve/main/qwen2.5-coder-1.5b-instruct-q4_k_m.gguf'',
       checksum = ''checksum_placeholder_coder_1.5b_q4'' \<rparr>,
     \<lparr> name = ''qwen2.5-coder-7b-q6_k.gguf'', family = ''Qwen2.5-Coder'',
       size_str = ''7B'', variant = ''Qwen2.5-Coder'', quantization = ''Q6_K'',
       disk_size_gb = 5.2, ram_requirement_gb = 6.5,
       recommended_hardware = ''16GB+ RAM, 4GB+ VRAM recommended'',
       description = ''Advanced code generation and debugging model'',
       download_url = ''https://huggingface.co/Qwen/Qwen2.5-Coder-7B-Instruct-GGUF/resolve/main/qwen2.5-coder-7b-instruct-q6_k.gguf'',
       checksum = ''checksum_placeholder_coder_7b_q6'' \<rparr>,
     \<lparr> name = ''qwen2.5-math-1.5b-q4_k_m.gguf'', family = ''Qwen2.5-Math'',
       size_str = ''1.5B'', variant = ''Qwen2.5-Math'', quantization = ''Q4_K_M'',
       disk_size_gb = 0.9, ram_requirement_gb = 1.2, recommended_hardware = ''8GB+ RAM'',
       description = ''Specialized for mathematical reasoning'',
       download_url = ''https://huggingface.co/Qwen/Qwen2.5-Math-1.5B-Instruct-GGUF/resolve/main/qwen2.5-math-1.5b-instruct-q4_k_m.gguf'',
       checksum = ''checksum_placeholder_math_1.5b_q4'' \<rparr>,
     \<lparr> name = ''qwen2.5-math-7b-q6_k.gguf'', family = ''Qwen2.5-Math'',
       size_str = ''7B'', variant = ''Qwen2.5-Math'', quantization = ''Q6_K'',
       disk_size_gb = 5.2, ram_requirement_gb = 6.5,
       recommended_hardware = ''16GB+ RAM, 4GB+ VRAM recommended'',
       description = ''Advanced mathematical reasoning model'',
       download_url = ''https://huggingface.co/Qwen/Qwen2.5-Math-7B-Instruct-GGUF/resolve/main/qwen2.5-math-7b-instruct-q6_k.gguf'',
       checksum = ''checksum_placeholder_math_7b_q6'' \<rparr>,
     \<lparr> name = ''qwen2.5-vl-2b-q4_k_m.gguf'', family = ''Qwen2.5-VL'', size_str = ''2B'',
       variant = ''Qwen2.5-VL'', quantization = ''Q4_K_M'', disk_size_gb = 1.5,
       ram_requirement_gb = 2.0,
       recommended_hardware = ''8GB+ RAM, 4GB+ VRAM recommended'',
       description = ''Vision-language model for image analysis'',
       download_url = ''https://huggingface.co/Qwen/Qwen2.5-VL-2B-Instruct-GGUF/resolve/main/qwen2.5-vl-2b-instruct-q4_k_m.gguf'',
       checksum = ''checksum_placeholder_vl_2b_q4'' \<rparr> ]"

text \<open>\<open>ModelManager.__init__\<close>: empty model sets, the built-in catalog, no rules.\<close>

definition init_ModelManager :: "string \<Rightarrow> ModelManager" where
  "init_ModelManager dir =
     \<lparr> models_dir = dir, downloaded_models = [], active_models = [],
       model_catalog = initialize_model_catalog, orchestration_rules = [] \<rparr>"

text \<open>
  The body of the filter loop of \<open>get_model_recommendations\<close> for one catalog entry:
  \<open>True\<close> when the entry is appended to \<open>suitable_models\<close>.
\<close>

definition is_suitable :: "HardwareCapabilityVector \<Rightarrow> ModelSpec \<Rightarrow> bool" where
  "is_suitable cv m =
     (if ram_requirement_gb m \<le> ram_gb cv then
        (if truthy (gpu_vram_gb cv) \<and> size_str m \<in> set [''7B'', ''32B''] then
           (case gpu_vram_gb cv of
              None \<Rightarrow> False
            | Some vram \<Rightarrow> ram_requirement_gb m * 0.7 \<le> vram)
         else size_str m \<notin> set [''7B'', ''32B''])
      else False)"

text \<open>
  \<open>suitable_models\<close> after the loop and the sort. \<open>list.sort(key=..., reverse=True)\<close> is
  stable: entries with equal keys keep their catalog order, as \<open>sort_key\<close> on the negated
  key does.
\<close>

definition suitable_models :: "ModelManager \<Rightarrow> HardwareCapabilityVector \<Rightarrow> ModelSpec list" where
  "suitable_models mm cv =
     sort_key (\<lambda>m. - ram_requirement_gb m) (filter (is_suitable cv) (model_catalog mm))"

text \<open>\<open>m.name\<close> for an optional model: \<open>None.name\<close> raises \<open>AttributeError\<close>.\<close>

definition attr_name :: "ModelSpec option \<Rightarrow> error + string" where
  "attr_name m = (case m of None \<Rightarrow> Inl AttributeError | Some x \<Rightarrow> Inr (name x))"

text \<open>\<open>a.name if a else b.name\<close>.\<close>

definition name_if_else :: "ModelSpec option \<Rightarrow> ModelSpec option \<Rightarrow> error + string" where
  "name_if_else a b = (case a of Some x \<Rightarrow> Inr (name x) | None \<Rightarrow> attr_name b)"

definition bind_err :: "'e + 'a \<Rightarrow> ('a \<Rightarrow> 'e + 'b) \<Rightarrow> 'e + 'b" where
  "bind_err r f = (case r of Inl e \<Rightarrow> Inl e | Inr v \<Rightarrow> f v)"

definition tiny_model :: "ModelSpec list \<Rightarrow> ModelSpec option" where
  "tiny_model sm =
     next_or (\<lambda>m. size_str m = ''0.5B'') sm
       (next_or (\<lambda>m. str_contains ''0.5'' (size_str m)) sm
          (case sm of [] \<Rightarrow> None | m # _ \<Rightarrow> Some m))"

definition small_model :: "ModelSpec list \<Rightarrow> ModelSpec option" where
  "small_model sm =
     next_or (\<lambda>m. size_str m = ''1.5B'') sm
       (next_or (\<lambda>m. str_contains ''1.5'' (size_str m)) sm (tiny_model sm))"

definition medium_model :: "ModelSpec list \<Rightarrow> ModelSpec option" where
  "medium_model sm =
     next_or (\<lambda>m. size_str m = ''7B'') sm
       (next_or (\<lambda>m. str_contains ''7'' (size_str m)) sm (small_model sm))"

definition balanced_daily_driver :: "HardwareCapabilityVector \<Rightarrow> ModelSpec list \<Rightarrow> error + pyval" where
  "balanced_daily_driver cv sm =
     bind_err (name_if_else (medium_model sm) (small_model sm)) (\<lambda>rm.
       Inr (PDict
         [ (''name'', PStr ''Balanced Daily Driver''),
           (''description'', PStr ''A single capable model for all tasks''),
           (''recommended_model'', PStr rm),
           (''configuration'', PDict
              [ (''context_window'', PInt 4096),
                (''gpu_layers'', PInt (if truthy_ge (gpu_vram_gb cv) 4 then 20 else 0)),
                (''threads'', PInt (cpu_cores cv)) ]) ]))"

definition specialist_ensemble :: "HardwareCapabilityVector \<Rightarrow> ModelSpec list \<Rightarrow> error + pyval" where
  "specialist_ensemble cv sm =
     (let coder_model = next_or (\<lambda>m. str_contains ''Coder'' (variant m)) sm (small_model sm);
          math_model = next_or (\<lambda>m. str_contains ''Math'' (variant m)) sm (small_model sm);
          general_model = next_or (\<lambda>m. ''Qwen2.5'' = variant m) sm (small_model sm)
      in bind_err (attr_name coder_model) (\<lambda>cn.
         bind_err (attr_name math_model) (\<lambda>mn.
         bind_err (attr_name general_model) (\<lambda>gn.
           Inr (PDict
             [ (''name'', PStr ''Specialist Ensemble''),
               (''description'',
                  PStr ''Multiple smaller, fine-tuned models with automatic routing''),
               (''recommended_models'', PList [PStr cn, PStr mn, PStr gn]),
               (''configuration'', PDict
                  [ (''routing_rules'', PList
                       [ PDict [(''task'', PStr ''coding''), (''model'', PStr cn)],
                         PDict [(''task'', PStr ''math''), (''model'', PStr mn)],
                         PDict [(''task'', PStr ''general''), (''model'', PStr gn)] ]),
                    (''context_window'', PInt 4096),
                    (''gpu_layers'',
                       PInt (if truthy_ge (gpu_vram_gb cv) 4 then 10 else 0)) ]) ])))))"

definition speed_demon :: "HardwareCapabilityVector \<Rightarrow> ModelSpec list \<Rightarrow> error + pyval" where
  "speed_demon cv sm =
     bind_err (name_if_else (tiny_model sm) (small_model sm)) (\<lambda>rm.
     bind_err (name_if_else (medium_model sm) (small_model sm)) (\<lambda>fb.
       Inr (PDict
         [ (''name'', PStr ''Speed Demon''),
           (''description'',
              PStr ''Tiny model for near-instant responses, with option for larger models''),
           (''recommended_model'', PStr rm),
           (''configuration'', PDict
              [ (''context_window'', PInt 2048),
                (''gpu_layers'', PInt 0),
                (''threads'', PInt (cpu_cores cv)),
                (''fallback_model'', PStr fb) ]) ])))"

definition power_user_config :: "HardwareCapabilityVector \<Rightarrow> ModelSpec list \<Rightarrow> error + pyval" where
  "power_user_config cv sm =
     bind_err
       (if 16 \<le> ram_gb cv \<and> truthy_ge (gpu_vram_gb cv) 4
        then attr_name (medium_model sm) else attr_name (small_model sm)) (\<lambda>rm.
       Inr (PDict
         [ (''name'', PStr ''Power User Config''),
           (''description'', PStr ''Manual control to define everything''),
           (''recommended_model'', PStr rm),
           (''configuration'', PDict
              [ (''context_window'', PInt (if 16 \<le> ram_gb cv then 8192 else 4096)),
                (''gpu_layers'',
                   PInt (if truthy_ge (gpu_vram_gb cv) 8 then 30
                         else if truthy_ge (gpu_vram_gb cv) 4 then 20 else 5)),
                (''threads'', PInt (cpu_threads cv)),
                (''custom_rules'', PList []) ]) ]))"

text \<open>\<open>_generate_ai_profiles\<close>: the four profiles, in the order the dict is filled.\<close>

definition generate_ai_profiles ::
  "HardwareCapabilityVector \<Rightarrow> ModelSpec list \<Rightarrow> error + (string \<times> pyval) list" where
  "generate_ai_profiles cv sm =
     bind_err (balanced_daily_driver cv sm) (\<lambda>p1.
     bind_err (specialist_ensemble cv sm) (\<lambda>p2.
     bind_err (speed_demon cv sm) (\<lambda>p3.
     bind_err (power_user_config cv sm) (\<lambda>p4.
       Inr [ (''balanced_daily_driver'', p1),
             (''specialist_ensemble'', p2),
             (''speed_demon'', p3),
             (''power_user_config'', p4) ]))))"

text \<open>The dict \<open>recommendations\<close> of \<open>get_model_recommendations\<close>.\<close>

record recommendations =
  primary_model :: "ModelSpec option"
  alternative_models :: "ModelSpec list"
  profiles :: "(string \<times> pyval) list"

text \<open>
  \<open>ModelManager.get_model_recommendations\<close>, in state-passing form: the result (or the
  exception raised) and the manager after the call. \<open>suitable_models[1:4]\<close> is
  \<open>take 3 (drop 1 ...)\<close>.
\<close>

definition get_model_recommendations ::
  "ModelManager \<Rightarrow> HardwareCapabilityVector \<Rightarrow> (error + recommendations) \<times> ModelManager" where
  "get_model_recommendations mm cv =
     (let sm = suitable_models mm cv in
      (case sm of
         [] \<Rightarrow> (Inr \<lparr> primary_model = None, alternative_models = [], profiles = [] \<rparr>, mm)
       | m # _ \<Rightarrow>
           (bind_err (generate_ai_profiles cv sm) (\<lambda>ps.
              Inr \<lparr> primary_model = Some m, alternative_models = take 3 (drop 1 sm),
                    profiles = ps \<rparr>), mm)))"

text \<open>\<open>add_orchestration_rule\<close>: the rule is appended, its id the old length of the list.\<close>

definition add_orchestration_rule :: "ModelManager \<Rightarrow> string \<Rightarrow> string \<Rightarrow> int \<Rightarrow> ModelManager" where
  "add_orchestration_rule mm cond act prio =
     mm \<lparr> orchestration_rules := orchestration_rules mm @
            [\<lparr> condition = cond, action = act, priority = prio,
               rule_id = length (orchestration_rules mm) \<rparr>] \<rparr>"

section \<open>hardware\_profiler.py: the diagnostic pipeline\<close>

text \<open>
  The sensors, clocks and the load-test thread are the environment. Their reads are
  inputs of the model: the census dict as \<open>_hardware_census\<close> returned it, the
  temperature read before the load test, one temperature read per iteration of the
  monitoring loop (the loop runs while the load-test thread is alive, so this list is
  finite), and the measured times and resident-set sizes.
\<close>

text \<open>The census dict, with the keys \<open>_create_capability_vector\<close> reads (prefix \<open>hd_\<close>).\<close>

record hardware_data =
  hd_cpu_architecture :: string
  hd_cpu_cores :: int
  hd_cpu_threads :: int
  hd_cpu_max_freq :: real
  hd_special_instructions :: "string list"
  hd_ram_gb :: real
  hd_gpu_name :: "string option"
  hd_gpu_vram_gb :: "real option"
  hd_storage_tier :: string

text \<open>The dict \<open>thermal_data\<close> (prefix \<open>td_\<close>).\<close>

record thermal_data =
  td_initial_temp :: "real option"
  td_test_duration :: real
  td_max_temp :: real
  td_temp_delta :: real
  td_temp_readings :: "real list"
  td_thermal_profile :: string

text \<open>The dict \<open>benchmark_data\<close> (prefix \<open>bd_\<close>).\<close>

record benchmark_data =
  bd_latency_ms_per_token :: real
  bd_memory_pressure_mb :: real
  bd_parallel_performance :: real
  bd_overall_score :: real

record sensor_inputs =
  in_hardware_data :: hardware_data
  in_initial_temp :: "real option"
  in_loop_temps :: "real option list"
  in_test_duration :: real
  in_latency_time :: real
  in_memory_start :: int
  in_memory_end :: int
  in_parallel_time :: real

record HardwareProfiler =
  hp_capability_vector :: "HardwareCapabilityVector option"
  hp_profiles :: "(string \<times> pyval) list"

definition init_HardwareProfiler :: HardwareProfiler where
  "init_HardwareProfiler = \<lparr> hp_capability_vector = None, hp_profiles = [] \<rparr>"

text \<open>\<open>_detect_special_instructions\<close>, from the CPU flags and \<open>platform.system()\<close>.\<close>

definition detect_special_instructions :: "string list \<Rightarrow> string \<Rightarrow> string list" where
  "detect_special_instructions flags system =
     (if ''avx'' \<in> set flags then [''AVX''] else []) @
     (if ''avx2'' \<in> set flags then [''AVX2''] else []) @
     (if ''avx512f'' \<in> set flags then [''AVX-512''] else []) @
     (if ''neon'' \<in> set flags then [''NEON''] else []) @
     (if system = ''Darwin'' then [''AMX''] else [])"

text \<open>
  The monitoring loop of \<open>_thermal_characterization\<close>: one iteration per temperature
  read, carrying \<open>max_temp\<close> and \<open>temp_readings\<close>. A read of \<open>None\<close> or \<open>0.0\<close> is falsy
  and changes neither.
\<close>

fun monitor_loop :: "real option list \<Rightarrow> real \<Rightarrow> real list \<Rightarrow> real \<times> real list" where
  "monitor_loop [] max_temp readings = (max_temp, readings)"
| "monitor_loop (current_temp # rest) max_temp readings =
     monitor_loop rest
       (case current_temp of
          None \<Rightarrow> max_temp
        | Some t \<Rightarrow> if t \<noteq> 0 \<and> max_temp < t then t else max_temp)
       (case current_temp of
          None \<Rightarrow> readings
        | Some t \<Rightarrow> if t \<noteq> 0 then readings @ [t] else readings)"

text \<open>The \<open>if\<close>/\<open>elif\<close> chain on \<open>temp_delta\<close> that ends \<open>_thermal_characterization\<close>.\<close>

definition assess_thermal_profile :: "real \<Rightarrow> string" where
  "assess_thermal_profile temp_delta =
     (if temp_delta < 10 then ''Excellent''
      else if temp_delta < 20 then ''Good''
      else if temp_delta < 30 then ''Balanced''
      else ''Limited'')"

text \<open>
  \<open>_thermal_characterization\<close>. \<open>initial_temp if initial_temp else 0\<close> and
  \<open>initial_temp or 0\<close> both give \<open>0\<close> for \<open>None\<close> and for \<open>0.0\<close>.
\<close>

definition thermal_characterization ::
  "real option \<Rightarrow> real option list \<Rightarrow> real \<Rightarrow> thermal_data" where
  "thermal_characterization initial_temp loop_temps duration =
     (let start_max = (case initial_temp of None \<Rightarrow> 0 | Some t \<Rightarrow> if t \<noteq> 0 then t else 0);
          final = monitor_loop loop_temps start_max [];
          delta = fst final - (case initial_temp of None \<Rightarrow> 0 | Some t \<Rightarrow> if t \<noteq> 0 then t else 0)
      in \<lparr> td_initial_temp = initial_temp,
           td_test_duration = duration,
           td_max_temp = fst final,
           td_temp_delta = delta,
           td_temp_readings = snd final,
           td_thermal_profile = assess_thermal_profile delta \<rparr>)"

text \<open>\<open>_calculate_overall_score\<close>.\<close>

definition calculate_overall_score :: "real \<Rightarrow> real \<Rightarrow> real \<Rightarrow> real" where
  "calculate_overall_score latency memory_pressure parallel_time =
     (let latency_score = max 0 (100 - latency / 10);
          memory_score = max 0 (100 - memory_pressure / 10);
          parallel_score = max 0 (100 - parallel_time * 1000);
          overall_score = latency_score * 0.4 + memory_score * 0.3 + parallel_score * 0.3
      in min 100 (max 0 overall_score))"

text \<open>
  The formula as the specification words it, with \<open>clip x lo hi\<close> bounding \<open>x\<close> on both
  sides; it is compared with \<open>calculate_overall_score\<close> below.
\<close>

definition clip :: "real \<Rightarrow> real \<Rightarrow> real \<Rightarrow> real" where
  "clip x lo hi = min hi (max lo x)"

definition spec_overall_score :: "real \<Rightarrow> real \<Rightarrow> real \<Rightarrow> real" where
  "spec_overall_score latency_ms mem_mb parallel_s =
     clip (0.4 * clip (100 - latency_ms / 10) 0 100
           + 0.3 * clip (100 - mem_mb / 10) 0 100
           + 0.3 * clip (100 - parallel_s * 1000) 0 100) 0 100"

text \<open>
  \<open>_baseline_ai_benchmarking\<close>, from the three measurements: elapsed seconds of the
  latency probe, resident-set bytes before and after the memory probe, elapsed seconds
  of the parallel probe.
\<close>

definition baseline_ai_benchmarking :: "real \<Rightarrow> int \<Rightarrow> int \<Rightarrow> real \<Rightarrow> benchmark_data" where
  "baseline_ai_benchmarking latency_time memory_start memory_end parallel_time =
     (let latency_ms = latency_time * 1000;
          memory_mb = real_of_int (memory_end - memory_start) / (1024 * 1024)
      in \<lparr> bd_latency_ms_per_token = latency_ms,
           bd_memory_pressure_mb = memory_mb,
           bd_parallel_performance = parallel_time,
           bd_overall_score = calculate_overall_score latency_ms memory_mb parallel_time \<rparr>)"

definition create_capability_vector ::
  "hardware_data \<Rightarrow> thermal_data \<Rightarrow> benchmark_data \<Rightarrow> HardwareCapabilityVector" where
  "create_capability_vector hardware thermal benchmark =
     \<lparr> architecture = hd_cpu_architecture hardware,
       cpu_cores = hd_cpu_cores hardware,
       cpu_threads = hd_cpu_threads hardware,
       cpu_speed = hd_cpu_max_freq hardware,
       ram_gb = hd_ram_gb hardware,
       gpu_name = hd_gpu_name hardware,
       gpu_vram_gb = hd_gpu_vram_gb hardware,
       storage_tier = hd_storage_tier hardware,
       thermal_profile = td_thermal_profile thermal,
       special_instructions = hd_special_instructions hardware \<rparr>"

text \<open>
  A progress callback acts on the caller's world \<open>'w\<close>; \<open>if progress_callback:
  progress_callback(p, msg)\<close> is \<open>notify\<close>.
\<close>

type_synonym 'w progress_callback = "int \<Rightarrow> string \<Rightarrow> 'w \<Rightarrow> 'w"

definition notify :: "'w progress_callback option \<Rightarrow> int \<Rightarrow> string \<Rightarrow> 'w \<Rightarrow> 'w" where
  "notify cb percent msg w = (case cb of None \<Rightarrow> w | Some f \<Rightarrow> f percent msg w)"

text \<open>A callback that records each call it receives, in order.\<close>

definition record_progress :: "(int \<times> string) list progress_callback" where
  "record_progress percent msg calls = calls @ [(percent, msg)]"

text \<open>
  \<open>run_full_diagnostic\<close>: the capability vector returned, the profiler after the call
  and the caller's world after the callbacks.
\<close>

definition run_full_diagnostic ::
  "HardwareProfiler \<Rightarrow> 'w progress_callback option \<Rightarrow> sensor_inputs \<Rightarrow> 'w
     \<Rightarrow> HardwareCapabilityVector \<times> HardwareProfiler \<times> 'w" where
  "run_full_diagnostic hp cb inp w0 =
     (let hardware = in_hardware_data inp;
          w1 = notify cb 30 ''Hardware census complete'' w0;
          thermal = thermal_characterization (in_initial_temp inp) (in_loop_temps inp)
                      (in_test_duration inp);
          w2 = notify cb 60 ''Thermal characterization complete'' w1;
          benchmark = baseline_ai_benchmarking (in_latency_time inp) (in_memory_start inp)
                        (in_memory_end inp) (in_parallel_time inp);
          w3 = notify cb 90 ''Benchmarking complete'' w2;
          cv = create_capability_vector hardware thermal benchmark
      in (cv, hp \<lparr> hp_capability_vector := Some cv \<rparr>, w3))"

section \<open>nexus\_core.py: the session\<close>

record QwenNexus =
  hardware_profiler :: HardwareProfiler
  model_manager :: ModelManager
  capability_vector :: "HardwareCapabilityVector option"
  initialized :: bool
  privacy_mode :: bool
  trust_store :: "string set"
  sandboxed_execution :: bool

definition init_QwenNexus :: "string \<Rightarrow> QwenNexus" where
  "init_QwenNexus dir =
     \<lparr> hardware_profiler = init_HardwareProfiler,
       model_manager = init_ModelManager dir,
       capability_vector = None,
       initialized = False,
       privacy_mode = True,
       trust_store = {},
       sandboxed_execution = True \<rparr>"

definition setup_recommended_config :: "QwenNexus \<Rightarrow> recommendations \<Rightarrow> QwenNexus" where
  "setup_recommended_config s recs =
     (case primary_model recs of
        None \<Rightarrow> s
      | Some pm \<Rightarrow> s \<lparr> trust_store := insert (name pm) (trust_store s) \<rparr>)"

text \<open>A single quotation mark, for the rule conditions that quote a value.\<close>

definition sq :: string where
  "sq = [CHR 0x27]"

definition setup_default_orchestration_rules :: "QwenNexus \<Rightarrow> QwenNexus" where
  "setup_default_orchestration_rules s =
     (let m1 = add_orchestration_rule (model_manager s)
                 (''user_action == '' @ sq @ ''writing_email'' @ sq) ''use Qwen2.5-7B'' 1;
          m2 = add_orchestration_rule m1
                 (''user_action == '' @ sq @ ''debugging_python'' @ sq)
                 ''use Qwen2.5-Coder-7B'' 1;
          m3 = add_orchestration_rule m2
                 (''query_complexity == '' @ sq @ ''high'' @ sq @ '' AND battery > 50%'')
                 ''use Qwen2.5-32B'' 2
      in s \<lparr> model_manager := m3 \<rparr>)"

text \<open>
  \<open>QwenNexus.initialize\<close>: what it returns or raises, the session after the call and the
  caller's world after the callbacks.
\<close>

definition initialize ::
  "QwenNexus \<Rightarrow> 'w progress_callback option \<Rightarrow> sensor_inputs \<Rightarrow> 'w
     \<Rightarrow> (error + bool) \<times> QwenNexus \<times> 'w" where
  "initialize s cb inp w0 =
     (case run_full_diagnostic (hardware_profiler s) cb inp w0 of
        (cv, hp, w1) \<Rightarrow>
          (let s1 = s \<lparr> hardware_profiler := hp, capability_vector := Some cv \<rparr> in
           (case get_model_recommendations (model_manager s1) cv of
              (Inl e, mm) \<Rightarrow> (Inl e, s1 \<lparr> model_manager := mm \<rparr>, w1)
            | (Inr recs, mm) \<Rightarrow>
                (Inr True,
                 (setup_default_orchestration_rules
                    (setup_recommended_config (s1 \<lparr> model_manager := mm \<rparr>) recs))
                   \<lparr> initialized := True \<rparr>,
                 w1))))"

text \<open>
  What \<open>QwenNexus.get_model_recommendations\<close> returns: the empty dict \<open>{}\<close> or the
  manager's recommendations dict.
\<close>

datatype recommendations_result =
    EmptyDict
  | Recommendations recommendations

definition nexus_get_model_recommendations ::
  "QwenNexus \<Rightarrow> (error + recommendations_result) \<times> QwenNexus" where
  "nexus_get_model_recommendations s =
     (case capability_vector s of
        None \<Rightarrow> (Inr EmptyDict, s)
      | Some cv \<Rightarrow>
          (case get_model_recommendations (model_manager s) cv of
             (Inl e, mm) \<Rightarrow> (Inl e, s \<lparr> model_manager := mm \<rparr>)
           | (Inr recs, mm) \<Rightarrow> (Inr (Recommendations recs), s \<lparr> model_manager := mm \<rparr>)))"

definition select_model_for_task :: "QwenNexus \<Rightarrow> string \<Rightarrow> string" where
  "select_model_for_task s task_type =
     (if str_contains ''code'' (lower task_type) \<or> str_contains ''programming'' (lower task_type)
      then ''qwen2.5-coder-7b-q6_k.gguf''
      else if str_contains ''math'' (lower task_type) \<or> str_contains ''calculate'' (lower task_type)
      then ''qwen2.5-math-7b-q6_k.gguf''
      else if str_contains ''image'' (lower task_type) \<or> str_contains ''vision'' (lower task_type)
      then ''qwen2.5-vl-2b-q4_k_m.gguf''
      else ''qwen2.5-7b-q6_k.gguf'')"

definition simulate_ai_response :: "string \<Rightarrow> string \<Rightarrow> string" where
  "simulate_ai_response task_type query =
     ''Simulated response for '' @ task_type @ '' task: '' @ take 50 query @ ''...''"

text \<open>
  \<open>execute_task\<close>: the model is selected (and printed), the response is simulated; the
  result pairs the selected model with the response returned.
\<close>

definition execute_task :: "QwenNexus \<Rightarrow> string \<Rightarrow> string \<Rightarrow> error + (string \<times> string)" where
  "execute_task s task_type query =
     (if \<not> initialized s
      then Inl (RuntimeError ''QwenNexus not initialized. Call initialize() first.'')
      else Inr (select_model_for_task s task_type, simulate_ai_response task_type query))"

definition add_custom_orchestration_rule ::
  "QwenNexus \<Rightarrow> string \<Rightarrow> string \<Rightarrow> int \<Rightarrow> QwenNexus" where
  "add_custom_orchestration_rule s cond act prio =
     s \<lparr> model_manager := add_orchestration_rule (model_manager s) cond act prio \<rparr>"

text \<open>Reading \<open>profiles[p]['configuration'][k]\<close> out of a recommendations dict.\<close>

definition dict_get :: "pyval \<Rightarrow> string \<Rightarrow> pyval option" where
  "dict_get d k = (case d of PDict kvs \<Rightarrow> map_of kvs k | _ \<Rightarrow> None)"

definition profile_setting :: "recommendations \<Rightarrow> string \<Rightarrow> string \<Rightarrow> pyval option" where
  "profile_setting recs p k =
     (case map_of (profiles recs) p of
        None \<Rightarrow> None
      | Some prof \<Rightarrow>
          (case dict_get prof ''configuration'' of
             None \<Rightarrow> None
           | Some cfg \<Rightarrow> dict_get cfg k))"

section \<open>The specification's wording and the scenarios it names\<close>

text \<open>
  Suitability as the specification words it: the RAM bound, and either the descriptor
  is outside the size classes 7B and 32B or the VRAM is present and covers 0.7 times
  the RAM requirement. It is compared with \<open>is_suitable\<close> below.
\<close>

definition spec_suitable :: "HardwareCapabilityVector \<Rightarrow> ModelSpec \<Rightarrow> bool" where
  "spec_suitable V D =
     (ram_requirement_gb D \<le> ram_gb V \<and>
      (size_str D \<notin> {''7B'', ''32B''} \<or>
       (case gpu_vram_gb V of
          None \<Rightarrow> False
        | Some vram \<Rightarrow> ram_requirement_gb D * 0.7 \<le> vram)))"

text \<open>
  The capability vector of the end-to-end scenario: 16 GB of RAM, 4 GB of VRAM, 8
  cores. The scenario leaves the other fields open; they are fixed here.
\<close>

definition scenario_vector :: HardwareCapabilityVector where
  "scenario_vector =
     \<lparr> architecture = ''x86_64'', cpu_cores = 8, cpu_threads = 16, cpu_speed = 3.2,
       ram_gb = 16, gpu_name = Some ''GPU'', gpu_vram_gb = Some 4,
       storage_tier = ''Fast'', thermal_profile = ''Good'',
       special_instructions = [''AVX'', ''AVX2''] \<rparr>"

text \<open>A device with a quarter of a gigabyte of RAM and no GPU.\<close>

definition tiny_vector :: HardwareCapabilityVector where
  "tiny_vector =
     \<lparr> architecture = ''armv7l'', cpu_cores = 1, cpu_threads = 1, cpu_speed = 0.7,
       ram_gb = 0.25, gpu_name = None, gpu_vram_gb = None,
       storage_tier = ''Slow'', thermal_profile = ''Good'',
       special_instructions = [] \<rparr>"

text \<open>
  The reads of one diagnostic run: a laptop whose temperature rises from 40 to 52
  degrees over three ticks of the monitoring loop.
\<close>

definition sample_inputs :: sensor_inputs where
  "sample_inputs =
     \<lparr> in_hardware_data =
         \<lparr> hd_cpu_architecture = ''x86_64'', hd_cpu_cores = 8, hd_cpu_threads = 16,
           hd_cpu_max_freq = 3.2, hd_special_instructions = [''AVX'', ''AVX2''],
           hd_ram_gb = 16, hd_gpu_name = Some ''GPU'', hd_gpu_vram_gb = Some 4,
           hd_storage_tier = ''Fast'' \<rparr>,
       in_initial_temp = Some 40,
       in_loop_temps = [Some 45, Some 52, Some 50],
       in_test_duration = 20,
       in_latency_time = 0.1,
       in_memory_start = 100000000,
       in_memory_end = 104000000,
       in_parallel_time = 0.05 \<rparr>"

section \<open>Basic facts\<close>

lemma bind_err_Inr: "bind_err (Inr v) f = f v"
  by (simp add: bind_err_def)

text \<open>\<open>str_contains\<close> is the contiguous-substring relation.\<close>

lemma str_contains_sublist: "str_contains needle hay \<longleftrightarrow> sublist needle hay"
  by (induction hay) (simp_all add: sublist_Cons_right)

subsection \<open>The filter and the ranking\<close>

lemma set_suitable_models:
  "set (suitable_models mm V) = {D \<in> set (model_catalog mm). is_suitable V D}"
  by (simp add: suitable_models_def)

lemma is_suitable_spec:
  "0 < ram_requirement_gb D \<Longrightarrow> is_suitable V D = spec_suitable V D"
  by (cases "gpu_vram_gb V") (auto simp: is_suitable_def spec_suitable_def truthy_def)

lemma catalog_ram_positive:
  "D \<in> set initialize_model_catalog \<Longrightarrow> 0 < ram_requirement_gb D"
  by (auto simp: initialize_model_catalog_def)

lemma suitable_empty_below:
  assumes "\<forall>m \<in> set (model_catalog mm). ram_gb cv < ram_requirement_gb m"
  shows "suitable_models mm cv = []"
proof -
  have "filter (is_suitable cv) (model_catalog mm) = []"
    using assms by (auto simp: filter_empty_conv is_suitable_def)
  then show ?thesis by (simp add: suitable_models_def)
qed

text \<open>The ranking is by RAM requirement, largest first.\<close>

lemma suitable_models_ranked:
  "sorted (map (\<lambda>m. - ram_requirement_gb m) (suitable_models mm cv))"
  by (simp add: suitable_models_def)

subsection \<open>Profile synthesis never fails on a non-empty ranking\<close>

lemma next_or_Some: "d \<noteq> None \<Longrightarrow> next_or P xs d \<noteq> None"
  by (simp add: next_or_def split: option.splits)

lemma tiny_model_Some: "sm \<noteq> [] \<Longrightarrow> tiny_model sm \<noteq> None"
  by (cases sm) (simp_all add: tiny_model_def next_or_Some)

lemma small_model_Some: "sm \<noteq> [] \<Longrightarrow> small_model sm \<noteq> None"
  by (simp add: small_model_def next_or_Some tiny_model_Some)

lemma medium_model_Some: "sm \<noteq> [] \<Longrightarrow> medium_model sm \<noteq> None"
  by (simp add: medium_model_def next_or_Some small_model_Some)

lemma generate_ai_profiles_total:
  assumes ne: "sm \<noteq> []"
  shows "\<exists>ps. generate_ai_profiles cv sm = Inr ps"
proof -
  obtain s where s: "small_model sm = Some s"
    using small_model_Some [OF ne] by auto
  obtain m where m: "medium_model sm = Some m"
    using medium_model_Some [OF ne] by auto
  obtain t where t: "tiny_model sm = Some t"
    using tiny_model_Some [OF ne] by auto
  obtain c where c: "next_or (\<lambda>m. str_contains ''Coder'' (variant m)) sm (Some s) = Some c"
    using next_or_Some [of "Some s"] by fastforce
  obtain ma where ma: "next_or (\<lambda>m. str_contains ''Math'' (variant m)) sm (Some s) = Some ma"
    using next_or_Some [of "Some s"] by fastforce
  obtain g where g: "next_or (\<lambda>m. ''Qwen2.5'' = variant m) sm (Some s) = Some g"
    using next_or_Some [of "Some s"] by fastforce
  show ?thesis
    by (simp add: generate_ai_profiles_def balanced_daily_driver_def specialist_ensemble_def
        speed_demon_def power_user_config_def name_if_else_def attr_name_def bind_err_def
        s m t c ma g)
qed

lemma get_model_recommendations_total:
  "\<exists>r. fst (get_model_recommendations mm cv) = Inr r"
proof (cases "suitable_models mm cv")
  case Nil
  then show ?thesis by (simp add: get_model_recommendations_def)
next
  case (Cons a rest)
  then obtain ps where "generate_ai_profiles cv (suitable_models mm cv) = Inr ps"
    using generate_ai_profiles_total [of "suitable_models mm cv" cv] by auto
  with Cons show ?thesis by (simp add: get_model_recommendations_def bind_err_def)
qed

subsection \<open>The thermal stage and the benchmark score\<close>

lemma monitor_loop_all_None:
  "monitor_loop (replicate n None) max_temp readings = (max_temp, readings)"
  by (induction n) simp_all

text \<open>\<open>max_temp\<close> never falls below its start and bounds every recorded reading above it.\<close>

lemma monitor_loop_max_ge: "max_temp \<le> fst (monitor_loop ts max_temp readings)"
proof (induction ts arbitrary: max_temp readings)
  case Nil
  then show ?case by simp
next
  case (Cons t ts)
  show ?case
  proof (cases t)
    case None
    then show ?thesis using Cons.IH [of max_temp readings] by simp
  next
    case (Some v)
    show ?thesis
    proof (cases "v \<noteq> 0 \<and> max_temp < v")
      case True
      then show ?thesis
        using Cons.IH [of v "readings @ [v]"] Some by simp
    next
      case False
      then show ?thesis
        using Cons.IH [of max_temp "if v \<noteq> 0 then readings @ [v] else readings"] Some
        by auto
    qed
  qed
qed

lemma thermal_delta_nonneg: "0 \<le> td_temp_delta (thermal_characterization i ts d)"
  using monitor_loop_max_ge [of "case i of None \<Rightarrow> 0 | Some t \<Rightarrow> if t \<noteq> 0 then t else 0" ts "[]"]
  by (simp add: thermal_characterization_def Let_def)

lemma overall_score_range:
  "0 \<le> calculate_overall_score l m p \<and> calculate_overall_score l m p \<le> 100"
  by (simp add: calculate_overall_score_def Let_def)

text \<open>On non-negative measurements the code and the specification's formula agree.\<close>

lemma overall_score_agree:
  assumes l: "0 \<le> l" and m: "0 \<le> m" and p: "0 \<le> p"
  shows "calculate_overall_score l m p = spec_overall_score l m p"
proof -
  have a: "clip (100 - l / 10) 0 100 = max 0 (100 - l / 10)"
    using l by (simp add: clip_def min_def max_def)
  have b: "clip (100 - m / 10) 0 100 = max 0 (100 - m / 10)"
    using m by (simp add: clip_def min_def max_def)
  have c: "clip (100 - p * 1000) 0 100 = max 0 (100 - p * 1000)"
    using p by (simp add: clip_def min_def max_def)
  show ?thesis
    unfolding calculate_overall_score_def spec_overall_score_def a b c Let_def
    by (simp add: clip_def mult.commute)
qed

subsection \<open>Rules and selection\<close>

lemma add_orchestration_rule_catalog:
  "model_catalog (add_orchestration_rule mm c a p) = model_catalog mm"
  by (simp add: add_orchestration_rule_def)

lemma add_orchestration_rule_length:
  "length (orchestration_rules (add_orchestration_rule mm c a p)) =
     Suc (length (orchestration_rules mm))"
  by (simp add: add_orchestration_rule_def)

lemma execute_task_add_rule:
  "execute_task (add_custom_orchestration_rule s c a p) t q = execute_task s t q"
  by (simp add: execute_task_def add_custom_orchestration_rule_def select_model_for_task_def)

lemma execute_task_add_rules:
  "execute_task (fold (\<lambda>(c, a, p) s. add_custom_orchestration_rule s c a p) rules s) t q
     = execute_task s t q"
  by (induction rules arbitrary: s) (simp_all add: execute_task_add_rule split: prod.splits)

section \<open>The claims\<close>

subsection \<open>Recommendation engine\<close>

text \<open>
  C1. The scenario of the specification: 16 GB of RAM, 4 GB of VRAM and 8 cores against
  the built-in catalog. The claim expects the 7B/Q6\_K descriptor as primary model and
  20 GPU layers in the profile "Balanced Daily Driver". The code gives the 20 layers,
  but its filter asks \<open>6.5 * 0.7 = 4.55\<close> GB of VRAM of every 7B descriptor, so with 4 GB
  none is suitable and the primary model is the 2B vision-language descriptor, the
  largest of what is left.
\<close>

theorem scenario_16_4_8_recommendation:
  "(case fst (get_model_recommendations (init_ModelManager ''/workspace/models'')
              scenario_vector) of
      Inl e \<Rightarrow> None
    | Inr r \<Rightarrow>
        Some (map_option name (primary_model r),
              map name (alternative_models r),
              profile_setting r ''balanced_daily_driver'' ''gpu_layers''))
   = Some (Some ''qwen2.5-vl-2b-q4_k_m.gguf'',
           [''qwen2.5-1.5b-q4_k_m.gguf'', ''qwen2.5-coder-1.5b-q4_k_m.gguf'',
            ''qwen2.5-math-1.5b-q4_k_m.gguf''],
           Some (PInt 20))"
  by (simp add: get_model_recommendations_def suitable_models_def init_ModelManager_def
      initialize_model_catalog_def is_suitable_def scenario_vector_def truthy_def
      truthy_ge_def generate_ai_profiles_def balanced_daily_driver_def
      specialist_ensemble_def speed_demon_def power_user_config_def name_if_else_def
      attr_name_def bind_err_def medium_model_def small_model_def tiny_model_def
      next_or_def profile_setting_def dict_get_def)

text \<open>
  C2. For every capability vector and every descriptor of the catalog, the descriptor
  is in the suitable set of \<open>get_model_recommendations\<close> exactly when it satisfies the
  specification's condition: its RAM requirement is within the RAM, and if its size
  class is 7B or 32B the VRAM is present and covers 0.7 times the RAM requirement.
\<close>

theorem suitable_iff_spec:
  assumes "model_catalog mm = initialize_model_catalog"
    and "D \<in> set (model_catalog mm)"
  shows "D \<in> set (suitable_models mm V) \<longleftrightarrow> spec_suitable V D"
proof -
  have "0 < ram_requirement_gb D"
    using assms catalog_ram_positive by simp
  then have "is_suitable V D = spec_suitable V D"
    by (rule is_suitable_spec)
  with assms(2) show ?thesis
    by (simp add: set_suitable_models)
qed

theorem suitable_iff_spec_witness:
  "model_catalog (init_ModelManager ''/workspace/models'') = initialize_model_catalog
   \<and> initialize_model_catalog ! 2 \<in> set (model_catalog (init_ModelManager ''/workspace/models''))
   \<and> (initialize_model_catalog ! 2
        \<in> set (suitable_models (init_ModelManager ''/workspace/models'') scenario_vector))
      = spec_suitable scenario_vector (initialize_model_catalog ! 2)
   \<and> \<not> spec_suitable scenario_vector (initialize_model_catalog ! 2)
   \<and> name (initialize_model_catalog ! 2) = ''qwen2.5-7b-q6_k.gguf''"
proof -
  have c: "model_catalog (init_ModelManager ''/workspace/models'') = initialize_model_catalog"
    by (simp add: init_ModelManager_def)
  have d: "initialize_model_catalog ! 2
             \<in> set (model_catalog (init_ModelManager ''/workspace/models''))"
    by (simp add: init_ModelManager_def initialize_model_catalog_def)
  have n: "\<not> spec_suitable scenario_vector (initialize_model_catalog ! 2)"
    by (simp add: spec_suitable_def scenario_vector_def initialize_model_catalog_def)
  have m: "name (initialize_model_catalog ! 2) = ''qwen2.5-7b-q6_k.gguf''"
    by (simp add: initialize_model_catalog_def)
  show ?thesis
    using suitable_iff_spec [OF c d, of scenario_vector] c d n m by simp
qed

text \<open>
  C8. Whenever no descriptor is suitable, and in particular whenever the RAM is below
  the RAM requirement of every descriptor of the catalog, \<open>get_model_recommendations\<close>
  returns normally, with no primary model, no alternatives and no profiles, and leaves
  the manager as it was.
\<close>

theorem no_suitable_model_empty_result:
  assumes "suitable_models mm cv = []
           \<or> (\<forall>m \<in> set (model_catalog mm). ram_gb cv < ram_requirement_gb m)"
  shows "get_model_recommendations mm cv =
           (Inr \<lparr> primary_model = None, alternative_models = [], profiles = [] \<rparr>, mm)"
proof -
  from assms have "suitable_models mm cv = []"
    using suitable_empty_below by blast
  then show ?thesis
    by (simp add: get_model_recommendations_def)
qed

theorem no_suitable_model_empty_result_witness:
  "suitable_models (init_ModelManager ''/workspace/models'') tiny_vector = []
   \<and> get_model_recommendations (init_ModelManager ''/workspace/models'') tiny_vector =
       (Inr \<lparr> primary_model = None, alternative_models = [], profiles = [] \<rparr>,
        init_ModelManager ''/workspace/models'')"
proof -
  have below: "\<forall>m \<in> set (model_catalog (init_ModelManager ''/workspace/models'')).
                 ram_gb tiny_vector < ram_requirement_gb m"
    by (simp add: init_ModelManager_def initialize_model_catalog_def tiny_vector_def)
  then have e: "suitable_models (init_ModelManager ''/workspace/models'') tiny_vector = []"
    by (rule suitable_empty_below)
  show ?thesis
    using no_suitable_model_empty_result
            [of "init_ModelManager ''/workspace/models''" tiny_vector] e
    by simp
qed

text \<open>
  C10. The result of \<open>get_model_recommendations\<close> depends on the capability vector and
  the catalog alone: two managers with the same catalog give the same result for the
  same vector, whatever their rules, downloaded and active models. The call changes
  nothing of the manager, so the catalog stays as it was and a second call with the
  same vector returns the same primary model, alternatives and profiles.
\<close>

theorem get_model_recommendations_catalog_only:
  assumes "model_catalog mm' = model_catalog mm"
  shows "fst (get_model_recommendations mm' cv) = fst (get_model_recommendations mm cv)
         \<and> snd (get_model_recommendations mm cv) = mm
         \<and> model_catalog (snd (get_model_recommendations mm cv)) = model_catalog mm
         \<and> get_model_recommendations (snd (get_model_recommendations mm cv)) cv
             = get_model_recommendations mm cv"
proof -
  have sm: "suitable_models mm' cv = suitable_models mm cv"
    using assms by (simp add: suitable_models_def)
  have st: "snd (get_model_recommendations m cv) = m" for m
    by (simp add: get_model_recommendations_def Let_def split: list.splits)
  have "fst (get_model_recommendations mm' cv) = fst (get_model_recommendations mm cv)"
    by (simp add: get_model_recommendations_def Let_def sm split: list.splits)
  then show ?thesis by (simp add: st)
qed

theorem get_model_recommendations_catalog_only_witness:
  "model_catalog (add_orchestration_rule (init_ModelManager ''/workspace/models'')
                    ''battery < 20%'' ''use Qwen2.5-0.5B'' 3)
     = model_catalog (init_ModelManager ''/workspace/models'')
   \<and> orchestration_rules (add_orchestration_rule (init_ModelManager ''/workspace/models'')
                    ''battery < 20%'' ''use Qwen2.5-0.5B'' 3)
     \<noteq> orchestration_rules (init_ModelManager ''/workspace/models'')
   \<and> fst (get_model_recommendations
            (add_orchestration_rule (init_ModelManager ''/workspace/models'')
               ''battery < 20%'' ''use Qwen2.5-0.5B'' 3) scenario_vector)
     = fst (get_model_recommendations (init_ModelManager ''/workspace/models'')
              scenario_vector)"
proof -
  have h: "model_catalog (add_orchestration_rule (init_ModelManager ''/workspace/models'')
                    ''battery < 20%'' ''use Qwen2.5-0.5B'' 3)
     = model_catalog (init_ModelManager ''/workspace/models'')"
    by (rule add_orchestration_rule_catalog)
  have r: "orchestration_rules (add_orchestration_rule (init_ModelManager ''/workspace/models'')
                    ''battery < 20%'' ''use Qwen2.5-0.5B'' 3)
     \<noteq> orchestration_rules (init_ModelManager ''/workspace/models'')"
    by (simp add: add_orchestration_rule_def init_ModelManager_def)
  show ?thesis
    using get_model_recommendations_catalog_only [OF h, of scenario_vector] h r by simp
qed

subsection \<open>Diagnostic pipeline\<close>

text \<open>
  C3. When no temperature source is available, the read before the load test and every
  read of the monitoring loop is \<open>None\<close>. The claim expects the stage to complete with 0
  as initial and maximum temperature and the thermal profile "Unknown". The code
  completes with \<open>max_temp = 0\<close> and \<open>temp_delta = 0\<close>, keeps \<open>None\<close> as the recorded
  initial temperature, and classifies the delta of 0 as "Excellent".
\<close>

theorem no_temperature_source_is_excellent:
  "thermal_characterization None (replicate 20 None) 20 =
     \<lparr> td_initial_temp = None, td_test_duration = 20, td_max_temp = 0, td_temp_delta = 0,
       td_temp_readings = [], td_thermal_profile = ''Excellent'' \<rparr>
   \<and> td_thermal_profile (thermal_characterization None (replicate 20 None) 20)
       \<noteq> ''Unknown''"
  by (simp add: thermal_characterization_def monitor_loop_all_None
      assess_thermal_profile_def)

text \<open>
  C6. The thermal profile the stage reports is a function of \<open>temp_delta\<close> alone: below
  10 it is "Excellent", from 10 and below 20 "Good", from 20 and below 30 "Balanced",
  from 30 on "Limited"; so 9, 10, 29 and 30 give "Excellent", "Good", "Balanced" and
  "Limited".
\<close>

theorem thermal_profile_boundaries:
  "td_thermal_profile (thermal_characterization initial_temp loop_temps duration) =
     assess_thermal_profile
       (td_temp_delta (thermal_characterization initial_temp loop_temps duration))
   \<and> assess_thermal_profile delta =
       (if delta < 10 then ''Excellent''
        else if delta < 20 then ''Good''
        else if delta < 30 then ''Balanced''
        else ''Limited'')
   \<and> assess_thermal_profile 9 = ''Excellent''
   \<and> assess_thermal_profile 10 = ''Good''
   \<and> assess_thermal_profile 29 = ''Balanced''
   \<and> assess_thermal_profile 30 = ''Limited''
   \<and> td_thermal_profile (thermal_characterization (Some 40) [Some 49] 20) = ''Excellent''
   \<and> td_thermal_profile (thermal_characterization (Some 40) [Some 45, Some 50] 20) = ''Good''
   \<and> td_thermal_profile (thermal_characterization (Some 40) [Some 69, None] 20) = ''Balanced''
   \<and> td_thermal_profile (thermal_characterization (Some 40) [Some 70] 20) = ''Limited''"
  by (simp add: thermal_characterization_def assess_thermal_profile_def Let_def)

text \<open>
  C5. The claim expects each of the three component scores clipped to the range 0 to
  100 before the weighted sum, for every input, negative ones included. The code bounds
  each component below by 0 only, so a negative measurement gives a component above
  100. With a latency of 100 ms, a memory delta of -50 MB (the resident set shrank) and
  0.05 s for the parallel probe, the code returns 82.5 where the formula gives 81.
\<close>

theorem overall_score_negative_memory:
  "calculate_overall_score 100 (- 50) 0.05 = 82.5
   \<and> spec_overall_score 100 (- 50) 0.05 = 81
   \<and> bd_overall_score (baseline_ai_benchmarking 0.1 104857600 52428800 0.05) = 82.5"
  by (simp add: calculate_overall_score_def spec_overall_score_def clip_def
      baseline_ai_benchmarking_def Let_def)

text \<open>
  C7. As amended: with a progress callback supplied, a full diagnostic run invokes it
  exactly three times, once after each stage, with the percent values 30, 60 and 90 in
  this order; 0 and 100 are never passed.
\<close>

theorem progress_checkpoints:
  "snd (snd (run_full_diagnostic hp (Some f) inp w)) =
     f 90 ''Benchmarking complete''
       (f 60 ''Thermal characterization complete''
          (f 30 ''Hardware census complete'' w))
   \<and> snd (snd (run_full_diagnostic hp (Some record_progress) inp calls)) =
       calls @ [(30, ''Hardware census complete''),
                (60, ''Thermal characterization complete''),
                (90, ''Benchmarking complete'')]
   \<and> map fst (snd (snd (run_full_diagnostic hp (Some record_progress) inp []))) =
       [30, 60, 90]"
  by (simp add: run_full_diagnostic_def notify_def record_progress_def Let_def)

theorem progress_checkpoints_counterexample:
  "map fst (snd (snd (run_full_diagnostic init_HardwareProfiler (Some record_progress)
                        sample_inputs [])))
     \<noteq> [0, 30, 60, 90, 100]"
  by (simp add: run_full_diagnostic_def notify_def record_progress_def Let_def)

subsection \<open>Session and router\<close>

text \<open>
  C4. As amended: \<open>QwenNexus.get_model_recommendations\<close>, called while the session has
  no capability vector (before the diagnostic has run), raises nothing: it returns the
  empty dict and leaves the session unchanged.
\<close>

theorem recommendations_before_diagnostic:
  "capability_vector s = None \<Longrightarrow>
     nexus_get_model_recommendations s = (Inr EmptyDict, s)"
  by (simp add: nexus_get_model_recommendations_def)

theorem recommendations_before_diagnostic_witness:
  "capability_vector (init_QwenNexus ''/workspace/models'') = None
   \<and> nexus_get_model_recommendations (init_QwenNexus ''/workspace/models'') =
       (Inr EmptyDict, init_QwenNexus ''/workspace/models'')"
proof -
  have h: "capability_vector (init_QwenNexus ''/workspace/models'') = None"
    by (simp add: init_QwenNexus_def)
  show ?thesis
    using recommendations_before_diagnostic [OF h] h by simp
qed

theorem recommendations_before_diagnostic_counterexample:
  "fst (nexus_get_model_recommendations (init_QwenNexus ''/workspace/models''))
     = Inr EmptyDict"
  by (simp add: nexus_get_model_recommendations_def init_QwenNexus_def)

text \<open>
  C9. The model selected for a task depends on the task type alone: any two sessions
  select the same model for the same task type, so replacing the rule list, adding a
  rule with \<open>add_custom_orchestration_rule\<close> or adding any sequence of rules changes
  neither the selection nor what \<open>execute_task\<close> returns.
\<close>

theorem selection_ignores_rules:
  "select_model_for_task s task_type = select_model_for_task s' task_type
   \<and> select_model_for_task
        (s \<lparr> model_manager := (model_manager s) \<lparr> orchestration_rules := rules \<rparr> \<rparr>) task_type
       = select_model_for_task s task_type
   \<and> select_model_for_task (add_custom_orchestration_rule s cond act prio) task_type
       = select_model_for_task s task_type
   \<and> select_model_for_task
        (fold (\<lambda>(c, a, p) s. add_custom_orchestration_rule s c a p) added s) task_type
       = select_model_for_task s task_type
   \<and> execute_task
        (fold (\<lambda>(c, a, p) s. add_custom_orchestration_rule s c a p) added s) task_type query
       = execute_task s task_type query"
  by (simp add: select_model_for_task_def execute_task_add_rules)

end
